theory Spec2Isabelle
  imports Complex_Main
begin

section \<open>Values received from the network\<close>

text \<open>
  Payloads of REST responses and of push events are untyped at run time
  (\<^verbatim>\<open>unknown\<close> in the TypeScript source): they are JSON values. A JavaScript
  number is carried as a real (the code below only copies numbers and tests their
  type), a string as a list of 8-bit characters standing for its code units. An
  object is an association list of its own properties.
\<close>

datatype json =
    JNull
  | JBool bool
  | JNum real
  | JStr string
  | JArr "json list"
  | JObj "(string \<times> json) list"

text \<open>A JavaScript value read from such a payload: \<open>None\<close> is \<^verbatim>\<open>undefined\<close>.\<close>

type_synonym jsval = "json option"

text \<open>\<^verbatim>\<open>d.key\<close>: reading a property that is absent, or reading a JSON
  primitive or array under one of the keys used here, gives \<^verbatim>\<open>undefined\<close>.\<close>

fun field :: "json \<Rightarrow> string \<Rightarrow> jsval" where
  "field (JObj kvs) k = map_of kvs k"
| "field _ k = None"

text \<open>Truthiness of a JSON value (\<^verbatim>\<open>d && ...\<close>).\<close>

fun truthy :: "json \<Rightarrow> bool" where
  "truthy JNull = False"
| "truthy (JBool b) = b"
| "truthy (JNum r) = (r \<noteq> 0)"
| "truthy (JStr s) = (s \<noteq> [])"
| "truthy (JArr xs) = True"
| "truthy (JObj kvs) = True"

text \<open>\<^verbatim>\<open>typeof v === "string"\<close> and \<^verbatim>\<open>typeof v === "number"\<close>.\<close>

fun is_string :: "jsval \<Rightarrow> bool" where
  "is_string (Some (JStr s)) = True"
| "is_string _ = False"

fun is_number :: "jsval \<Rightarrow> bool" where
  "is_number (Some (JNum r)) = True"
| "is_number _ = False"

text \<open>\<^verbatim>\<open>typeof v === "number" ? v : undefined\<close> and the same for strings.\<close>

fun number_or_undefined :: "jsval \<Rightarrow> real option" where
  "number_or_undefined (Some (JNum r)) = Some r"
| "number_or_undefined _ = None"

fun string_or_undefined :: "jsval \<Rightarrow> string option" where
  "string_or_undefined (Some (JStr s)) = Some s"
| "string_or_undefined _ = None"

text \<open>\<^verbatim>\<open>res.data ?? null\<close>: a missing or null body is stored as null.\<close>

fun or_null :: "json \<Rightarrow> json option" where
  "or_null JNull = None"
| "or_null j = Some j"

subsection \<open>Strings\<close>

text \<open>\<^verbatim>\<open>String.prototype.trim\<close> removes white space and line terminators at
  both ends; these are the ones an 8-bit code unit can hold.\<close>

definition js_whitespace :: "char \<Rightarrow> bool" where
  "js_whitespace c =
     (c \<in> set [CHR 0x09, CHR 0x0A, CHR 0x0B, CHR 0x0C, CHR 0x0D, CHR 0x20, CHR 0xA0])"

definition trim :: "string \<Rightarrow> string" where
  "trim s = rev (dropWhile js_whitespace (rev (dropWhile js_whitespace s)))"

section \<open>MonitoringPage\<close>

record MonitoringData =
  device_id :: string
  temperature :: "real option"
  humidity :: "real option"
  cpu :: "real option"
  memory_percent :: "real option"
  disk_percent :: "real option"
  status :: "string option"
  timestamp :: string

text \<open>The component's state (its \<^verbatim>\<open>useState\<close> cells). A prediction result is
  stored as received.\<close>

record MonitoringState =
  data :: "MonitoringData list"
  loading :: bool
  deviceFilter :: string
  dateStart :: string
  dateEnd :: string
  useDateRange :: bool
  socketConnected :: bool
  predictDeviceId :: string
  prediction :: "json option"
  predictionLoading :: bool
  predictionError :: "string option"

text \<open>The state at mount: the initial values of the cells.\<close>

definition mount_state :: MonitoringState where
  "mount_state =
     \<lparr>data = [], loading = True, deviceFilter = [], dateStart = [], dateEnd = [],
      useDateRange = False, socketConnected = False, predictDeviceId = [],
      prediction = None, predictionLoading = False, predictionError = None\<rparr>"

text \<open>The REST requests the page issues, by their parameters.\<close>

datatype monitoring_request =
    GetDataRange string string string
  | GetDataDevice string nat
  | GetDataAll nat
  | GetPredict string nat nat

text \<open>What a data request resolves to: a rejected promise (network failure, timeout,
  error status), a body that is not an array, or an array of rows.\<close>

datatype data_response = Failed | NotArray | Rows "MonitoringData list"

definition setData :: "MonitoringData list \<Rightarrow> MonitoringState \<Rightarrow> MonitoringState" where
  "setData rows st = st\<lparr>data := rows\<rparr>"

text \<open>
  \<^verbatim>\<open>loadData\<close>, up to its \<^verbatim>\<open>await\<close>. The parameter \<open>toISO\<close> stands for
  \<^verbatim>\<open>new Date(s).toISOString()\<close>, which throws on an invalid date (\<open>None\<close>); the
  exception is caught by the function's own \<^verbatim>\<open>catch\<close> and \<^verbatim>\<open>finally\<close>, before
  any request is sent. The result is the state and the requests sent.
\<close>

definition loadData_start ::
  "(string \<Rightarrow> string option) \<Rightarrow> MonitoringState \<Rightarrow> MonitoringState \<times> monitoring_request list" where
  "loadData_start toISO st =
     (let st1 = st\<lparr>loading := True\<rparr> in
      if useDateRange st \<and> trim (deviceFilter st) \<noteq> [] \<and> dateStart st \<noteq> [] \<and> dateEnd st \<noteq> [] then
        (case (toISO (dateStart st), toISO (dateEnd st)) of
           (Some start, Some end') \<Rightarrow> (st1, [GetDataRange (trim (deviceFilter st)) start end'])
         | _ \<Rightarrow> ((setData [] st1)\<lparr>loading := False\<rparr>, []))
      else if trim (deviceFilter st) \<noteq> [] then
        (st1, [GetDataDevice (trim (deviceFilter st)) 200])
      else
        (st1, [GetDataAll 200]))"

text \<open>
  \<^verbatim>\<open>loadData\<close>, from the resolution of the request it sent: the branch is the one
  that sent the request, the state is the component's state at that moment. The
  filter held by the state is not read.
\<close>

fun loadData_resolve :: "monitoring_request \<Rightarrow> data_response \<Rightarrow> MonitoringState \<Rightarrow> MonitoringState" where
  "loadData_resolve q Failed st = (setData [] st)\<lparr>loading := False\<rparr>"
| "loadData_resolve q NotArray st = (setData [] st)\<lparr>loading := False\<rparr>"
| "loadData_resolve (GetDataRange d s e) (Rows rows) st = (setData rows st)\<lparr>loading := False\<rparr>"
| "loadData_resolve q (Rows rows) st = (setData (rev rows) st)\<lparr>loading := False\<rparr>"

text \<open>The filter controls.\<close>

definition setDeviceFilter :: "string \<Rightarrow> MonitoringState \<Rightarrow> MonitoringState" where
  "setDeviceFilter v st = st\<lparr>deviceFilter := v\<rparr>"

definition setUseDateRange :: "bool \<Rightarrow> MonitoringState \<Rightarrow> MonitoringState" where
  "setUseDateRange b st = st\<lparr>useDateRange := b\<rparr>"

definition setDateStart :: "string \<Rightarrow> MonitoringState \<Rightarrow> MonitoringState" where
  "setDateStart v st = st\<lparr>dateStart := v\<rparr>"

definition setDateEnd :: "string \<Rightarrow> MonitoringState \<Rightarrow> MonitoringState" where
  "setDateEnd v st = st\<lparr>dateEnd := v\<rparr>"

subsection \<open>The push channel\<close>

text \<open>The row built from a \<^verbatim>\<open>device_data\<close> payload, when the payload has a string
  \<^verbatim>\<open>device_id\<close> and a string \<^verbatim>\<open>timestamp\<close>.\<close>

definition device_data_row :: "json \<Rightarrow> MonitoringData option" where
  "device_data_row d =
     (if truthy d then
        (case (field d ''device_id'', field d ''timestamp'') of
           (Some (JStr dev), Some (JStr ts)) \<Rightarrow>
             Some \<lparr>device_id = dev,
                   temperature = number_or_undefined (field d ''temperature''),
                   humidity = number_or_undefined (field d ''humidity''),
                   cpu = number_or_undefined (field d ''cpu''),
                   memory_percent = number_or_undefined (field d ''memory_percent''),
                   disk_percent = number_or_undefined (field d ''disk_percent''),
                   status = string_or_undefined (field d ''status''),
                   timestamp = ts\<rparr>
         | _ \<Rightarrow> None)
      else None)"

definition on_connect :: "MonitoringState \<Rightarrow> MonitoringState" where
  "on_connect st = st\<lparr>socketConnected := True\<rparr>"

definition on_disconnect :: "MonitoringState \<Rightarrow> MonitoringState" where
  "on_disconnect st = st\<lparr>socketConnected := False\<rparr>"

text \<open>The \<^verbatim>\<open>device_data\<close> listener: \<^verbatim>\<open>[row, ...prev].slice(0, 200)\<close>.\<close>

definition on_device_data :: "json \<Rightarrow> MonitoringState \<Rightarrow> MonitoringState" where
  "on_device_data doc st =
     (let st1 = st\<lparr>socketConnected := True\<rparr> in
      case device_data_row doc of
        Some row \<Rightarrow> st1\<lparr>data := take 200 (row # data st1)\<rparr>
      | None \<Rightarrow> st1)"

subsection \<open>The chart's rows\<close>

record ChartPoint =
  cp_time :: string
  cp_date :: string
  cp_temp :: real
  cp_humidity :: real
  cp_cpu :: real
  cp_ram :: real

text \<open>One chart row of \<^verbatim>\<open>chartData\<close>; \<open>fmtTime\<close> and \<open>fmtDate\<close> stand for the
  locale formatting of the timestamp.\<close>

definition chart_point :: "(string \<Rightarrow> string) \<Rightarrow> (string \<Rightarrow> string) \<Rightarrow> MonitoringData \<Rightarrow> ChartPoint" where
  "chart_point fmtTime fmtDate m =
     \<lparr>cp_time = (if timestamp m \<noteq> [] then fmtTime (timestamp m) else []),
      cp_date = (if timestamp m \<noteq> [] then fmtDate (timestamp m) else []),
      cp_temp = (case temperature m of Some t \<Rightarrow> t | None \<Rightarrow> 0),
      cp_humidity = (case humidity m of Some h \<Rightarrow> h | None \<Rightarrow> 0),
      cp_cpu = (case cpu m of Some c \<Rightarrow> c | None \<Rightarrow> 0),
      cp_ram = (case memory_percent m of Some r \<Rightarrow> r | None \<Rightarrow> 0)\<rparr>"

definition chartData :: "(string \<Rightarrow> string) \<Rightarrow> (string \<Rightarrow> string) \<Rightarrow> MonitoringState \<Rightarrow> ChartPoint list" where
  "chartData fmtTime fmtDate st = map (chart_point fmtTime fmtDate) (rev (data st))"

subsection \<open>The prediction panel\<close>

text \<open>\<^verbatim>\<open>fetchPrediction\<close> up to its \<^verbatim>\<open>await\<close>, and from the resolution of its
  request (\<open>None\<close>: the request failed).\<close>

definition fetchPrediction :: "MonitoringState \<Rightarrow> MonitoringState \<times> monitoring_request list" where
  "fetchPrediction st =
     (if trim (predictDeviceId st) = [] then (st, [])
      else (st\<lparr>predictionLoading := True, predictionError := None, prediction := None\<rparr>,
            [GetPredict (trim (predictDeviceId st)) 60 30]))"

definition prediction_unavailable :: string where
  "prediction_unavailable = ''Pr'' @ [CHR 0xE9] @ ''diction indisponible pour ce device.''"

fun fetchPrediction_resolve :: "json option \<Rightarrow> MonitoringState \<Rightarrow> MonitoringState" where
  "fetchPrediction_resolve (Some body) st = st\<lparr>prediction := or_null body, predictionLoading := False\<rparr>"
| "fetchPrediction_resolve None st =
     st\<lparr>predictionError := Some prediction_unavailable, prediction := None, predictionLoading := False\<rparr>"

section \<open>WeatherPage\<close>

text \<open>A city suggestion holds what the payload held under its four keys.\<close>

record CitySuggestion =
  name :: jsval
  country :: jsval
  latitude :: jsval
  longitude :: jsval

text \<open>React compares the dependencies of an effect with \<^verbatim>\<open>Object.is\<close>: a selected
  city is an object with an identity, its address.\<close>

datatype 'a object = Object (address: nat) (contents: 'a)

definition same_reference :: "'a object option \<Rightarrow> 'a object option \<Rightarrow> bool" where
  "same_reference a b = (map_option address a = map_option address b)"

record WeatherData =
  wd_temperature :: "real option"
  wd_humidity :: "real option"
  wd_description :: "string option"
  wd_city :: "string option"
  wd_updated_at :: "string option"
  wd_pressure :: "real option"
  wd_wind_speed :: "real option"
  wd_wind_direction :: "real option"
  wd_precipitation :: "real option"

text \<open>The bodies of the other responses, with the types the source declares for
  them. A field that may be absent or null is an option.\<close>

record ForecastDay =
  fd_date :: string
  fd_temp_min :: "real option"
  fd_temp_max :: "real option"
  fd_description :: "string option"
  fd_precipitation_sum :: "real option"
  fd_wind_speed_max :: "real option"

record ForecastNextHour =
  nh_time :: "string option"
  nh_temperature :: "real option"
  nh_description :: "string option"

record ForecastHour =
  fh_time :: "string option"
  fh_temperature :: "real option"

record ForecastData =
  fc_city :: "string option"
  fc_daily :: "ForecastDay list option"
  fc_hourly_24 :: "ForecastHour list option"
  fc_next_hour :: "ForecastNextHour option"

record SensorSample =
  ss_device_id :: "string option"
  ss_temperature :: "real option"
  ss_humidity :: "real option"
  ss_timestamp :: "string option"

record WeatherAnalysisDevice =
  ad_device_id :: string
  ad_avg_temp :: real
  ad_deviation :: real
  ad_is_anomaly :: bool
  ad_mean_abs_error :: real
  ad_sample_count :: real

record WeatherAnalysisData =
  an_city :: "string option"
  an_weather_temp :: "real option"
  an_weather_humidity :: "real option"
  an_devices :: "WeatherAnalysisDevice list"
  an_anomaly_threshold_celsius :: "real option"

record WeatherAwarePrediction =
  wa_device_id :: string
  wa_city :: "string option"
  wa_device_prediction :: "real option"
  wa_weather_next_hour :: "real option"
  wa_weather_aware_prediction :: "real option"
  wa_blend_factor :: "real option"
  wa_horizon_seconds :: "real option"
  wa_anomaly_corrected :: "bool option"
  wa_prediction_bounded_by_weather :: "bool option"
  wa_raw_prediction_before_bound :: "real option"

record Prediction24hHour =
  ph_time :: "string option"
  ph_our_model_temp :: "real option"
  ph_weather_temp :: "real option"
  ph_blended_temp :: "real option"

record Prediction24hData =
  pd_city :: "string option"
  pd_device_id :: "string option"
  pd_hourly :: "Prediction24hHour list option"
  pd_method :: "string option"
  pd_blend_factor :: "real option"
  pd_based_on_n_points :: "real option"

text \<open>The component's state. \<open>loadingWeather\<close> is the cell the source names
  \<^verbatim>\<open>loading\<close>. \<open>searchTimeoutRef\<close> holds the pending timer: the instant at
  which it is due, in milliseconds, and the input value its callback has captured.
  \<open>cityQuery\<close> holds a string after an input change and the name of the city,
  whatever it is, after a selection.\<close>

record WeatherState =
  weather :: "WeatherData option"
  loadingWeather :: bool
  error :: "string option"
  retryCount :: nat
  cityQuery :: jsval
  citySuggestions :: "CitySuggestion list"
  selectedCity :: "CitySuggestion object option"
  suggestionsOpen :: bool
  searching :: bool
  searchError :: "string option"
  searchTimeoutRef :: "(nat \<times> string) option"
  forecastData :: "ForecastData option"
  forecastLoading :: bool
  forecastError :: "string option"
  sensorsData :: "SensorSample list"
  sensorsLoading :: bool
  analysisData :: "WeatherAnalysisData option"
  analysisLoading :: bool
  analysisError :: "string option"
  weatherAwareDeviceId :: string
  weatherAwareResult :: "WeatherAwarePrediction option"
  weatherAwareLoading :: bool
  weatherAwareError :: "string option"
  prediction24hDeviceId :: string
  prediction24hData :: "Prediction24hData option"
  prediction24hLoading :: bool
  prediction24hError :: "string option"

text \<open>The state at mount: the initial values of the cells.\<close>

definition weather_mount_state :: WeatherState where
  "weather_mount_state =
     \<lparr>weather = None, loadingWeather = True, error = None, retryCount = 0,
      cityQuery = Some (JStr ''Paris''), citySuggestions = [],
      selectedCity =
        Some (Object 0 \<lparr>name = Some (JStr ''Paris''), country = Some (JStr ''France''),
                        latitude = Some (JNum 48.8566), longitude = Some (JNum 2.3522)\<rparr>),
      suggestionsOpen = False, searching = False, searchError = None, searchTimeoutRef = None,
      forecastData = None, forecastLoading = False, forecastError = None,
      sensorsData = [], sensorsLoading = False,
      analysisData = None, analysisLoading = False, analysisError = None,
      weatherAwareDeviceId = [], weatherAwareResult = None, weatherAwareLoading = False,
      weatherAwareError = None,
      prediction24hDeviceId = [], prediction24hData = None, prediction24hLoading = False,
      prediction24hError = None\<rparr>"

text \<open>The requests the page issues, by their parameters: to the backend, and to the
  public Open-Meteo services.\<close>

datatype weather_request =
    GetCurrentWeather CitySuggestion
  | GetForecast CitySuggestion nat
  | GetAnalysis CitySuggestion nat
  | GetPredictWeatherAware string CitySuggestion nat real
  | GetPrediction24h CitySuggestion string real
  | SearchCity string nat
  | OpenMeteoGeocoding string nat
  | OpenMeteoForecast CitySuggestion

definition SEARCH_DEBOUNCE_MS :: nat where
  "SEARCH_DEBOUNCE_MS = 350"

subsection \<open>City search\<close>











text \<open>\<^verbatim>\<open>fetchSuggestions\<close>, up to the request to the backend.\<close>

definition fetchSuggestions_start :: "string \<Rightarrow> WeatherState \<Rightarrow> WeatherState \<times> weather_request list" where
  "fetchSuggestions_start v st =
     (if trim v = [] then
        (st\<lparr>citySuggestions := [], suggestionsOpen := False, searchError := None\<rparr>, [])
      else
        (st\<lparr>searching := True, searchError := None\<rparr>, [SearchCity (trim v) 10]))"





subsection \<open>The debounced input\<close>

text \<open>\<^verbatim>\<open>onInputChange\<close> at the instant \<open>now\<close>: the pending timer is cleared, and
  for an input that is not blank a new one is set.\<close>

definition onInputChange :: "nat \<Rightarrow> string \<Rightarrow> WeatherState \<Rightarrow> WeatherState" where
  "onInputChange now v st =
     (let st1 = st\<lparr>cityQuery := Some (JStr v), error := None, searchError := None,
                   searchTimeoutRef := None\<rparr> in
      if trim v = [] then st1\<lparr>citySuggestions := [], suggestionsOpen := False\<rparr>
      else st1\<lparr>searchTimeoutRef := Some (now + SEARCH_DEBOUNCE_MS, v)\<rparr>)"

text \<open>The timer's callback runs once its instant is reached.\<close>

definition run_timer :: "nat \<Rightarrow> WeatherState \<Rightarrow> WeatherState \<times> weather_request list" where
  "run_timer now st =
     (case searchTimeoutRef st of
        None \<Rightarrow> (st, [])
      | Some (due, v) \<Rightarrow>
          if due \<le> now then fetchSuggestions_start v (st\<lparr>searchTimeoutRef := None\<rparr>)
          else (st, []))"

text \<open>A sequence of input changes, each with its instant: before each one the timer
  runs if it is due. The result is the state and the queries sent meanwhile.\<close>

fun typing :: "(nat \<times> string) list \<Rightarrow> WeatherState \<Rightarrow> WeatherState \<times> weather_request list" where
  "typing [] st = (st, [])"
| "typing ((t, v) # ks) st =
     (let (s1, r1) = run_timer t st;
          (s2, r2) = typing ks (onInputChange t v s1)
      in (s2, r1 @ r2))"

text \<open>After the last input change nothing more happens until the pending timer, if
  any, is due.\<close>

definition settle :: "WeatherState \<Rightarrow> WeatherState \<times> weather_request list" where
  "settle st =
     (case searchTimeoutRef st of
        None \<Rightarrow> (st, [])
      | Some (due, v) \<Rightarrow> run_timer due st)"

definition typing_then_settle :: "(nat \<times> string) list \<Rightarrow> WeatherState \<Rightarrow> WeatherState \<times> weather_request list" where
  "typing_then_settle ks st =
     (let (s1, r1) = typing ks st; (s2, r2) = settle s1 in (s2, r1 @ r2))"

text \<open>Successive input changes less than the settle interval apart.\<close>

fun gaps_below_settle :: "(nat \<times> string) list \<Rightarrow> bool" where
  "gaps_below_settle [] = True"
| "gaps_below_settle [k] = True"
| "gaps_below_settle (k1 # k2 # ks) =
     (fst k1 \<le> fst k2 \<and> fst k2 < fst k1 + SEARCH_DEBOUNCE_MS \<and> gaps_below_settle (k2 # ks))"

subsection \<open>The selected city and the panels keyed by it\<close>

definition selectCity :: "CitySuggestion object \<Rightarrow> WeatherState \<Rightarrow> WeatherState" where
  "selectCity c st =
     st\<lparr>selectedCity := Some c, cityQuery := name (contents c), citySuggestions := [],
        suggestionsOpen := False, retryCount := retryCount st + 1\<rparr>"

text \<open>The effect that loads the current weather, up to its first \<^verbatim>\<open>await\<close>.\<close>

definition weather_effect :: "WeatherState \<Rightarrow> WeatherState \<times> weather_request list" where
  "weather_effect st =
     (case selectedCity st of
        None \<Rightarrow> (st\<lparr>loadingWeather := False\<rparr>, [])
      | Some c \<Rightarrow> (st\<lparr>loadingWeather := True, error := None\<rparr>, [GetCurrentWeather (contents c)]))"

definition weather_unavailable_connection :: string where
  "weather_unavailable_connection =
     ''M'' @ [CHR 0xE9] @ ''t'' @ [CHR 0xE9] @ ''o non disponible. V'' @ [CHR 0xE9]
       @ ''rifiez votre connexion.''"

definition weather_unavailable_service :: string where
  "weather_unavailable_service =
     ''M'' @ [CHR 0xE9] @ ''t'' @ [CHR 0xE9] @ ''o non disponible. V'' @ [CHR 0xE9]
       @ ''rifiez que le service Monitoring est configur'' @ [CHR 0xE9] @ ''.''"

text \<open>\<^verbatim>\<open>data?.pressure == null && data?.wind_speed == null && data?.precipitation == null\<close>\<close>

fun missingEnriched :: "WeatherData option \<Rightarrow> bool" where
  "missingEnriched None = True"
| "missingEnriched (Some d) = (wd_pressure d = None \<and> wd_wind_speed d = None \<and> wd_precipitation d = None)"

definition enrich :: "WeatherData \<Rightarrow> WeatherData \<Rightarrow> WeatherData" where
  "enrich d enriched =
     d\<lparr>wd_pressure := wd_pressure enriched, wd_wind_speed := wd_wind_speed enriched,
       wd_wind_direction := wd_wind_direction enriched,
       wd_precipitation := wd_precipitation enriched\<rparr>"

text \<open>
  The rest of that effect, given how its requests end. \<open>backend\<close> is the answer of
  the backend (\<open>None\<close>: it failed; \<open>Some None\<close>: an empty body); \<open>open_meteo\<close> is
  the result of \<^verbatim>\<open>fetchWeatherOpenMeteo\<close>, if it is called (\<open>None\<close>: it throws;
  \<open>Some None\<close>: it returns null). \<open>c1\<close> is the effect's \<^verbatim>\<open>cancelled\<close> flag when
  the backend answers, \<open>c2\<close> the flag when the request to Open-Meteo has ended.
\<close>

definition weather_resolve ::
  "bool \<Rightarrow> bool \<Rightarrow> CitySuggestion \<Rightarrow> WeatherData option option \<Rightarrow> WeatherData option option
     \<Rightarrow> WeatherState \<Rightarrow> WeatherState \<times> weather_request list" where
  "weather_resolve c1 c2 current backend open_meteo st =
     (case backend of
        Some dat \<Rightarrow>
          if \<not> c1 \<and> dat \<noteq> None \<and> missingEnriched dat then
            (let dat' = (case (dat, open_meteo) of
                           (Some d, Some (Some enriched)) \<Rightarrow> Some (enrich d enriched)
                         | _ \<Rightarrow> dat)
             in (if c2 then st else st\<lparr>weather := dat', loadingWeather := False\<rparr>,
                 [OpenMeteoForecast current]))
          else (if c1 then st else st\<lparr>weather := dat, loadingWeather := False\<rparr>, [])
      | None \<Rightarrow>
          (if c2 then st
           else (case open_meteo of
                   Some (Some fallback) \<Rightarrow> st\<lparr>weather := Some fallback, loadingWeather := False\<rparr>
                 | Some None \<Rightarrow>
                     st\<lparr>error := Some weather_unavailable_connection, loadingWeather := False\<rparr>
                 | None \<Rightarrow>
                     st\<lparr>error := Some weather_unavailable_service, loadingWeather := False\<rparr>),
           [OpenMeteoForecast current]))"

definition forecast_unavailable :: string where
  "forecast_unavailable = ''Pr'' @ [CHR 0xE9] @ ''visions indisponibles.''"

definition analysis_unavailable :: string where
  "analysis_unavailable = ''Analyse m'' @ [CHR 0xE9] @ ''t'' @ [CHR 0xE9] @ ''o indisponible.''"

text \<open>The forecast effect, and what it does when its request ends (\<open>None\<close>: it
  failed; \<open>Some None\<close>: a body that is null or absent, stored as null), given its
  \<^verbatim>\<open>cancelled\<close> flag at that moment.\<close>

definition forecast_effect :: "WeatherState \<Rightarrow> WeatherState \<times> weather_request list" where
  "forecast_effect st =
     (case selectedCity st of
        None \<Rightarrow> (st\<lparr>forecastData := None, forecastError := None\<rparr>, [])
      | Some c \<Rightarrow> (st\<lparr>forecastLoading := True, forecastError := None\<rparr>, [GetForecast (contents c) 7]))"

fun forecast_resolve :: "bool \<Rightarrow> ForecastData option option \<Rightarrow> WeatherState \<Rightarrow> WeatherState" where
  "forecast_resolve True outcome st = st"
| "forecast_resolve False (Some body) st = st\<lparr>forecastData := body, forecastLoading := False\<rparr>"
| "forecast_resolve False None st =
     st\<lparr>forecastError := Some forecast_unavailable, forecastData := None, forecastLoading := False\<rparr>"

text \<open>The analysis effect, likewise.\<close>

definition analysis_effect :: "WeatherState \<Rightarrow> WeatherState \<times> weather_request list" where
  "analysis_effect st =
     (case selectedCity st of
        None \<Rightarrow> (st\<lparr>analysisData := None, analysisError := None\<rparr>, [])
      | Some c \<Rightarrow> (st\<lparr>analysisLoading := True, analysisError := None\<rparr>, [GetAnalysis (contents c) 100]))"

fun analysis_resolve :: "bool \<Rightarrow> WeatherAnalysisData option option \<Rightarrow> WeatherState \<Rightarrow> WeatherState" where
  "analysis_resolve True outcome st = st"
| "analysis_resolve False (Some body) st = st\<lparr>analysisData := body, analysisLoading := False\<rparr>"
| "analysis_resolve False None st =
     st\<lparr>analysisError := Some analysis_unavailable, analysisData := None, analysisLoading := False\<rparr>"

text \<open>
  After a render React runs, in the order of their declaration, the effects one of
  whose dependencies changed: \<^verbatim>\<open>[api, retryCount, selectedCity]\<close> for the weather,
  \<^verbatim>\<open>[api, selectedCity]\<close> for the forecast and for the analysis. \<open>before\<close> is the
  state at the previous render, \<open>st\<close> the state rendered; \<^verbatim>\<open>api\<close> changes with
  the credential only, which is the same at both. The effects write the coordinates
  of the city into their requests; these are numbers, as the filters of both sources
  of suggestions ensure.
\<close>

definition run_effects :: "WeatherState \<Rightarrow> WeatherState \<Rightarrow> WeatherState \<times> weather_request list" where
  "run_effects before st =
     (let city_changed = \<not> same_reference (selectedCity before) (selectedCity st);
          (s1, r1) = (if retryCount before \<noteq> retryCount st \<or> city_changed
                      then weather_effect st else (st, []));
          (s2, r2) = (if city_changed then forecast_effect s1 else (s1, []));
          (s3, r3) = (if city_changed then analysis_effect s2 else (s2, []))
      in (s3, r1 @ r2 @ r3))"

subsection \<open>The render\<close>

text \<open>
  A state update is followed by a render: the component function runs again and
  React reconciles the elements it returns. No error boundary stands above the page,
  so an exception in a render unmounts it, and the effects of that render do not run.
  On the cells typed by the declarations above every guard of the JSX holds; an
  exception can come from the cells that hold unchecked values only: \<open>cityQuery\<close>,
  the selected city and the suggestions.

  \<open>to_string_ok\<close>: a template literal can convert the value to a string. The
  conversion of an object calls its \<^verbatim>\<open>toString\<close>, and throws when the object has a
  property of that name, which is no function; the conversion of an array converts
  its elements, null ones apart.
\<close>

fun to_string_ok :: "json \<Rightarrow> bool" where
  "to_string_ok (JObj kvs) = (map_of kvs ''toString'' = None)"
| "to_string_ok (JArr xs) = list_all to_string_ok xs"
| "to_string_ok j = True"

text \<open>\<open>child_ok\<close>: React accepts the value as a child. It renders strings and
  numbers, nothing for booleans and null, the elements of an array, and throws on an
  object.\<close>

fun child_ok :: "json \<Rightarrow> bool" where
  "child_ok (JObj kvs) = False"
| "child_ok (JArr xs) = list_all child_ok xs"
| "child_ok j = True"

text \<open>\<^verbatim>\<open>{c.name}{c.country ? `, ${c.country}` : ""}\<close>, for the selected city and
  for each suggestion; undefined is a child that renders nothing, and is falsy.\<close>

definition city_label_ok :: "CitySuggestion \<Rightarrow> bool" where
  "city_label_ok c =
     ((case name c of None \<Rightarrow> True | Some n \<Rightarrow> child_ok n)
      \<and> (case country c of
            None \<Rightarrow> True
          | Some k \<Rightarrow> if truthy k then to_string_ok k else True))"

text \<open>One button of the suggestion list: its key is a template literal of the name
  and the coordinates, and \<^verbatim>\<open>toFixed\<close> is called on the coordinates.\<close>

definition suggestion_row_ok :: "CitySuggestion \<Rightarrow> bool" where
  "suggestion_row_ok c =
     ((case name c of None \<Rightarrow> True | Some n \<Rightarrow> to_string_ok n)
      \<and> is_number (latitude c) \<and> is_number (longitude c)
      \<and> city_label_ok c)"

text \<open>The render throws: \<^verbatim>\<open>searching || !cityQuery.trim()\<close> calls \<^verbatim>\<open>trim\<close>,
  unless \<open>searching\<close> holds, on a value that is no string; or the label of the
  selected city throws; or, the list being shown, one of its buttons does.\<close>

definition render_throws :: "WeatherState \<Rightarrow> bool" where
  "render_throws st =
     ((\<not> searching st \<and> \<not> is_string (cityQuery st))
      \<or> (case selectedCity st of None \<Rightarrow> False | Some c \<Rightarrow> \<not> city_label_ok (contents c))
      \<or> (suggestionsOpen st \<and> citySuggestions st \<noteq> []
          \<and> \<not> list_all suggestion_row_ok (citySuggestions st)))"

text \<open>A city is selected, and the component renders: \<open>None\<close> when the render throws
  and the page is unmounted, else the state and the requests sent by the effects.\<close>

definition city_selected ::
  "CitySuggestion object \<Rightarrow> WeatherState \<Rightarrow> (WeatherState \<times> weather_request list) option" where
  "city_selected c st =
     (let st' = selectCity c st in
      if render_throws st' then None else Some (run_effects st st'))"

text \<open>A city of the declared type: a string for its name, a string or nothing for its
  country, numbers for its coordinates.\<close>

definition city_well_typed :: "CitySuggestion \<Rightarrow> bool" where
  "city_well_typed c =
     (is_string (name c) \<and> (country c = None \<or> is_string (country c))
      \<and> is_number (latitude c) \<and> is_number (longitude c))"

subsection \<open>The panels keyed by a device\<close>

definition weather_aware_unavailable :: string where
  "weather_aware_unavailable = ''Pr'' @ [CHR 0xE9] @ ''diction weather-aware indisponible.''"

definition prediction24h_unavailable :: string where
  "prediction24h_unavailable = ''Pr'' @ [CHR 0xE9] @ ''diction 24h indisponible.''"

definition fetchWeatherAwarePrediction :: "WeatherState \<Rightarrow> WeatherState \<times> weather_request list" where
  "fetchWeatherAwarePrediction st =
     (case selectedCity st of
        None \<Rightarrow> (st, [])
      | Some current \<Rightarrow>
          if trim (weatherAwareDeviceId st) = [] then (st, [])
          else
            (st\<lparr>weatherAwareLoading := True, weatherAwareError := None, weatherAwareResult := None\<rparr>,
             [GetPredictWeatherAware (trim (weatherAwareDeviceId st)) (contents current) 3600 (6 / 10)]))"

fun weatherAware_resolve :: "WeatherAwarePrediction option option \<Rightarrow> WeatherState \<Rightarrow> WeatherState" where
  "weatherAware_resolve (Some body) st = st\<lparr>weatherAwareResult := body, weatherAwareLoading := False\<rparr>"
| "weatherAware_resolve None st =
     st\<lparr>weatherAwareError := Some weather_aware_unavailable, weatherAwareResult := None,
        weatherAwareLoading := False\<rparr>"

definition fetchPrediction24h :: "WeatherState \<Rightarrow> WeatherState \<times> weather_request list" where
  "fetchPrediction24h st =
     (case selectedCity st of
        None \<Rightarrow> (st, [])
      | Some current \<Rightarrow>
          if trim (prediction24hDeviceId st) = [] then (st, [])
          else
            (st\<lparr>prediction24hLoading := True, prediction24hError := None, prediction24hData := None\<rparr>,
             [GetPrediction24h (contents current) (trim (prediction24hDeviceId st)) (1 / 2)]))"

fun prediction24h_resolve :: "Prediction24hData option option \<Rightarrow> WeatherState \<Rightarrow> WeatherState" where
  "prediction24h_resolve (Some body) st = st\<lparr>prediction24hData := body, prediction24hLoading := False\<rparr>"
| "prediction24h_resolve None st =
     st\<lparr>prediction24hError := Some prediction24h_unavailable, prediction24hData := None,
        prediction24hLoading := False\<rparr>"

text \<open>The state of the two panels keyed by a device: result, error and loading flag
  of each.\<close>

definition device_panels ::
  "WeatherState \<Rightarrow> (WeatherAwarePrediction option \<times> string option \<times> bool)
     \<times> (Prediction24hData option \<times> string option \<times> bool)" where
  "device_panels st =
     ((weatherAwareResult st, weatherAwareError st, weatherAwareLoading st),
      (prediction24hData st, prediction24hError st, prediction24hLoading st))"

section \<open>Sample inputs\<close>

text \<open>A row with a device and a timestamp only.\<close>

definition reading :: "string \<Rightarrow> string \<Rightarrow> MonitoringData" where
  "reading dev ts =
     \<lparr>device_id = dev, temperature = None, humidity = None, cpu = None,
      memory_percent = None, disk_percent = None, status = None, timestamp = ts\<rparr>"

text \<open>\<^verbatim>\<open>new Date(s).toISOString()\<close> where local time is UTC, on the values of a
  \<^verbatim>\<open>datetime-local\<close> control (\<^verbatim>\<open>YYYY-MM-DDTHH:mm\<close>); any other string is taken
  for an invalid date.\<close>

definition utc_minute_toISO :: "string \<Rightarrow> string option" where
  "utc_minute_toISO s = (if length s = 16 then Some (s @ '':00.000Z'') else None)"

text \<open>The filter of a range query on one device, complete and with the end bound
  missing.\<close>

definition range_filter_state :: MonitoringState where
  "range_filter_state =
     mount_state\<lparr>useDateRange := True, deviceFilter := ''dev-1'',
       dateStart := ''2025-01-01T00:00'', dateEnd := ''2025-01-02T00:00''\<rparr>"

definition start_only_state :: MonitoringState where
  "start_only_state =
     mount_state\<lparr>useDateRange := True, deviceFilter := ''dev-1'',
       dateStart := ''2025-01-01T00:00''\<rparr>"

text \<open>A push payload with a numeric \<^verbatim>\<open>device_id\<close>, and a well-formed one.\<close>

definition malformed_payload :: json where
  "malformed_payload = JObj [(''device_id'', JNum 7), (''timestamp'', JStr ''2025-01-01T00:00:00Z'')]"

definition sample_payload :: json where
  "sample_payload =
     JObj [(''device_id'', JStr ''dev-1''), (''timestamp'', JStr ''1999-12-31T23:59:59Z''),
           (''temperature'', JNum 21)]"




text \<open>A result of the weather-aware prediction.\<close>

definition weather_aware_result :: WeatherAwarePrediction where
  "weather_aware_result =
     \<lparr>wa_device_id = ''dev-1'', wa_city = Some ''Paris'', wa_device_prediction = Some 21,
      wa_weather_next_hour = Some 19, wa_weather_aware_prediction = Some 20,
      wa_blend_factor = Some (6 / 10), wa_horizon_seconds = Some 3600,
      wa_anomaly_corrected = None, wa_prediction_bounded_by_weather = None,
      wa_raw_prediction_before_bound = None\<rparr>"

text \<open>A body of the analysis, with one device.\<close>

definition lyon_analysis :: WeatherAnalysisData where
  "lyon_analysis =
     \<lparr>an_city = Some ''Lyon'', an_weather_temp = Some 18, an_weather_humidity = None,
      an_devices =
        [\<lparr>ad_device_id = ''dev-1'', ad_avg_temp = 21, ad_deviation = 3, ad_is_anomaly = False,
          ad_mean_abs_error = 3, ad_sample_count = 12\<rparr>],
      an_anomaly_threshold_celsius = Some 5\<rparr>"

text \<open>The weather page with a result in one device panel and an error in the
  other.\<close>

definition panels_filled_state :: WeatherState where
  "panels_filled_state =
     weather_mount_state\<lparr>weatherAwareDeviceId := ''dev-1'',
       weatherAwareResult := Some weather_aware_result,
       prediction24hDeviceId := ''dev-1'',
       prediction24hError := Some prediction24h_unavailable\<rparr>"

definition lyon :: "CitySuggestion object" where
  "lyon =
     Object 1 \<lparr>name = Some (JStr ''Lyon''), country = Some (JStr ''France''),
               latitude = Some (JNum 45.76), longitude = Some (JNum 4.84)\<rparr>"

section \<open>Auxiliary facts\<close>

lemma trim_dev_1: "trim ''dev-1'' = ''dev-1''"
  by (simp add: trim_def js_whitespace_def)

lemma trim_dev_2: "trim ''dev-2'' = ''dev-2''"
  by (simp add: trim_def js_whitespace_def)

lemma trim_Par: "trim ''Par'' = ''Par''"
  by (simp add: trim_def js_whitespace_def)

lemma trim_Zzzqq123: "trim ''Zzzqq123'' = ''Zzzqq123''"
  by (simp add: trim_def js_whitespace_def)

lemma trim_blank: "trim ''  '' = []"
  by (simp add: trim_def js_whitespace_def)

lemma trim_Nil: "trim [] = []"
  by (simp add: trim_def)

text \<open>A batch load stores every row of the response, whatever the request.\<close>

lemma length_data_loadData_resolve:
  "length (data (loadData_resolve q (Rows rows) st)) = length rows"
  by (cases "(q, Rows rows, st)" rule: loadData_resolve.cases) (simp_all add: setData_def)

text \<open>The live path keeps the window within 200 rows.\<close>

lemma length_data_on_device_data:
  "length (data (on_device_data doc st)) \<le> max 200 (length (data st))"
  by (auto simp: on_device_data_def Let_def split: option.splits)

text \<open>The chart after a load: the rows of a range response reversed, the rows of the
  other two responses in the order received (they are stored reversed).\<close>

lemma chartData_range_load:
  "chartData ft fd (loadData_resolve (GetDataRange d s e) (Rows rows) st) =
     map (chart_point ft fd) (rev rows)"
  by (simp add: chartData_def setData_def)

lemma chartData_latest_load:
  "chartData ft fd (loadData_resolve (GetDataDevice d n) (Rows rows) st) = map (chart_point ft fd) rows"
  "chartData ft fd (loadData_resolve (GetDataAll n) (Rows rows) st) = map (chart_point ft fd) rows"
  by (simp_all add: chartData_def setData_def)

text \<open>A payload yields a row exactly when it has both strings.\<close>

lemma device_data_row_Some:
  assumes "is_string (field doc ''device_id'')" and "is_string (field doc ''timestamp'')"
  shows "\<exists>row. device_data_row doc = Some row
           \<and> field doc ''device_id'' = Some (JStr (device_id row))
           \<and> field doc ''timestamp'' = Some (JStr (timestamp row))"
proof -
  obtain dev where dev: "field doc ''device_id'' = Some (JStr dev)"
    using assms(1) by (cases "field doc ''device_id''" rule: is_string.cases) simp_all
  obtain ts where ts: "field doc ''timestamp'' = Some (JStr ts)"
    using assms(2) by (cases "field doc ''timestamp''" rule: is_string.cases) simp_all
  have "truthy doc"
    using dev by (cases doc) simp_all
  then show ?thesis
    by (simp add: device_data_row_def dev ts)
qed

lemma device_data_row_None:
  assumes "\<not> is_string (field doc ''device_id'') \<or> \<not> is_string (field doc ''timestamp'')"
  shows "device_data_row doc = None"
proof (cases "device_data_row doc")
  case None
  then show ?thesis .
next
  case (Some row)
  then have "is_string (field doc ''device_id'') \<and> is_string (field doc ''timestamp'')"
    by (auto simp: device_data_row_def split: if_splits option.splits json.splits)
  with assms show ?thesis by simp
qed

text \<open>The timer and the input.\<close>

lemma run_timer_not_due:
  "(\<And>due v. searchTimeoutRef st = Some (due, v) \<Longrightarrow> now < due) \<Longrightarrow> run_timer now st = (st, [])"
  by (auto simp: run_timer_def split: option.splits)

lemma searchTimeoutRef_onInputChange:
  "searchTimeoutRef (onInputChange now v st) =
     (if trim v = [] then None else Some (now + SEARCH_DEBOUNCE_MS, v))"
  by (simp add: onInputChange_def Let_def)

text \<open>While the input changes keep arriving before the pending timer is due, no
  query is sent, and the timer left pending is that of the last change.\<close>

lemma typing_within_settle:
  "gaps_below_settle ks \<Longrightarrow> ks \<noteq> [] \<Longrightarrow>
   (\<And>due v. searchTimeoutRef st = Some (due, v) \<Longrightarrow> fst (hd ks) < due) \<Longrightarrow>
   snd (typing ks st) = [] \<and>
   searchTimeoutRef (fst (typing ks st)) =
     (if trim (snd (last ks)) = [] then None
      else Some (fst (last ks) + SEARCH_DEBOUNCE_MS, snd (last ks)))"
proof (induction ks arbitrary: st rule: gaps_below_settle.induct)
  case 1
  then show ?case by simp
next
  case (2 k)
  obtain t v where k: "k = (t, v)" by (cases k)
  have "run_timer t st = (st, [])"
    using 2(3) k by (intro run_timer_not_due) auto
  then show ?case
    by (simp add: k searchTimeoutRef_onInputChange)
next
  case (3 k1 k2 ks)
  obtain t v where k1: "k1 = (t, v)" by (cases k1)
  have quiet: "run_timer t st = (st, [])"
    using 3(4) k1 by (intro run_timer_not_due) auto
  have gaps: "gaps_below_settle (k2 # ks)" and near: "fst k2 < t + SEARCH_DEBOUNCE_MS"
    using 3(2) k1 by simp_all
  have "snd (typing (k2 # ks) (onInputChange t v st)) = [] \<and>
        searchTimeoutRef (fst (typing (k2 # ks) (onInputChange t v st))) =
          (if trim (snd (last (k2 # ks))) = [] then None
           else Some (fst (last (k2 # ks)) + SEARCH_DEBOUNCE_MS, snd (last (k2 # ks))))"
  proof (rule 3(1) [OF gaps])
    show "k2 # ks \<noteq> []" by simp
  next
    fix due w
    assume "searchTimeoutRef (onInputChange t v st) = Some (due, w)"
    then have "due = t + SEARCH_DEBOUNCE_MS"
      by (simp add: searchTimeoutRef_onInputChange split: if_splits)
    then show "fst (hd (k2 # ks)) < due" using near by simp
  qed
  then show ?case
    by (simp add: k1 quiet split: prod.splits)
qed








text \<open>The handlers of the panels keyed by the city leave the panels keyed by a device
  as they are.\<close>

lemma device_panels_weather_resolve:
  "device_panels (fst (weather_resolve c1 c2 cur b om st)) = device_panels st"
  by (simp add: weather_resolve_def device_panels_def Let_def split: option.splits)

lemma device_panels_forecast_resolve:
  "device_panels (forecast_resolve c out st) = device_panels st"
  by (cases "(c, out, st)" rule: forecast_resolve.cases) (simp_all add: device_panels_def)

lemma device_panels_analysis_resolve:
  "device_panels (analysis_resolve c out st) = device_panels st"
  by (cases "(c, out, st)" rule: analysis_resolve.cases) (simp_all add: device_panels_def)

text \<open>The render depends on the cells of the search and of the selected city only,
  which the handlers of the three requests do not write.\<close>

lemma render_throws_weather_resolve:
  "render_throws (fst (weather_resolve c1 c2 cur b om st)) = render_throws st"
  by (simp add: weather_resolve_def render_throws_def Let_def split: option.splits)

lemma render_throws_forecast_resolve:
  "render_throws (forecast_resolve c out st) = render_throws st"
  by (cases "(c, out, st)" rule: forecast_resolve.cases) (simp_all add: render_throws_def)

lemma render_throws_analysis_resolve:
  "render_throws (analysis_resolve c out st) = render_throws st"
  by (cases "(c, out, st)" rule: analysis_resolve.cases) (simp_all add: render_throws_def)

lemma city_label_ok_well_typed: "city_well_typed c \<Longrightarrow> city_label_ok c"
proof -
  assume wt: "city_well_typed c"
  then obtain n where n: "name c = Some (JStr n)"
    by (cases "name c" rule: is_string.cases) (simp_all add: city_well_typed_def)
  from wt have "country c = None \<or> (\<exists>k. country c = Some (JStr k))"
    by (cases "country c" rule: is_string.cases) (simp_all add: city_well_typed_def)
  then show ?thesis
    by (auto simp: city_label_ok_def n)
qed

text \<open>Selecting a city whose name is no string, while no search is running, unmounts
  the page: no request is sent.\<close>

lemma city_selected_unmounts:
  "\<not> searching st \<Longrightarrow> \<not> is_string (name (contents c)) \<Longrightarrow> city_selected c st = None"
  by (simp add: city_selected_def selectCity_def render_throws_def)

section \<open>The claims\<close>

text \<open>
  C1. The window is said never to hold more than 200 rows, also right after a batch
  load whose result is longer. The code stores the rows of a range response as they
  are: with the filter of a range query, \<^verbatim>\<open>loadData\<close> sends the range request,
  and when it resolves to 201 rows the window holds 201 rows.
\<close>

theorem range_load_exceeds_capacity:
  "snd (loadData_start utc_minute_toISO range_filter_state) =
     [GetDataRange ''dev-1'' ''2025-01-01T00:00:00.000Z'' ''2025-01-02T00:00:00.000Z'']
   \<and> length (data (loadData_resolve
        (GetDataRange ''dev-1'' ''2025-01-01T00:00:00.000Z'' ''2025-01-02T00:00:00.000Z'')
        (Rows (replicate 201 (reading ''dev-1'' ''2025-01-01T12:00:00Z'')))
        (fst (loadData_start utc_minute_toISO range_filter_state)))) = 201"
  by (simp add: loadData_start_def range_filter_state_def mount_state_def trim_dev_1
      utc_minute_toISO_def setData_def)

text \<open>
  C2, as amended. In range mode with a device selected and one of the two bounds
  missing, \<^verbatim>\<open>loadData\<close> sends exactly one request, the one for the latest 200
  rows of the device, and leaves the window as it is until the request resolves; with
  both bounds set to valid instants it sends exactly one request, the range request.
\<close>

theorem incomplete_range_falls_back_to_latest:
  assumes "useDateRange st" and "trim (deviceFilter st) \<noteq> []"
  shows "(dateStart st = [] \<or> dateEnd st = [] \<longrightarrow>
            loadData_start toISO st =
              (st\<lparr>loading := True\<rparr>, [GetDataDevice (trim (deviceFilter st)) 200]))
       \<and> (dateStart st \<noteq> [] \<and> dateEnd st \<noteq> []
            \<and> toISO (dateStart st) = Some s \<and> toISO (dateEnd st) = Some e \<longrightarrow>
            loadData_start toISO st =
              (st\<lparr>loading := True\<rparr>, [GetDataRange (trim (deviceFilter st)) s e]))"
  using assms by (auto simp: loadData_start_def)

text \<open>The amended C2 at the filter with the end bound missing, and at the complete
  one.\<close>

theorem incomplete_range_falls_back_to_latest_witness:
  "useDateRange start_only_state \<and> trim (deviceFilter start_only_state) \<noteq> []
   \<and> dateEnd start_only_state = []
   \<and> loadData_start utc_minute_toISO start_only_state =
       (start_only_state\<lparr>loading := True\<rparr>, [GetDataDevice ''dev-1'' 200])
   \<and> loadData_start utc_minute_toISO range_filter_state =
       (range_filter_state\<lparr>loading := True\<rparr>,
        [GetDataRange ''dev-1'' ''2025-01-01T00:00:00.000Z'' ''2025-01-02T00:00:00.000Z''])"
  using incomplete_range_falls_back_to_latest
          [of start_only_state utc_minute_toISO "[]" "[]"]
        incomplete_range_falls_back_to_latest
          [of range_filter_state utc_minute_toISO
              "''2025-01-01T00:00:00.000Z''" "''2025-01-02T00:00:00.000Z''"]
  by (simp add: start_only_state_def range_filter_state_def mount_state_def trim_dev_1
      utc_minute_toISO_def)

text \<open>C2 as stated fails: with the start bound only, a request is sent.\<close>

theorem incomplete_range_sends_request:
  "snd (loadData_start utc_minute_toISO start_only_state) = [GetDataDevice ''dev-1'' 200]
   \<and> snd (loadData_start utc_minute_toISO start_only_state) \<noteq> []"
  by (simp add: loadData_start_def start_only_state_def mount_state_def trim_dev_1)

text \<open>
  C3. Of two overlapping loads, the one whose response arrives last is said to be
  discarded when its filter is no longer the current one. The code stores it: a load
  for all devices is sent at mount, the filter is set to a device and a second load
  is sent; the second resolves, then the first; the window holds the rows of the
  first, reversed, while the filter is the device.
\<close>

theorem stale_response_overwrites_window:
  "snd (loadData_start utc_minute_toISO mount_state) = [GetDataAll 200]
   \<and> snd (loadData_start utc_minute_toISO
            (setDeviceFilter ''dev-2'' (fst (loadData_start utc_minute_toISO mount_state))))
       = [GetDataDevice ''dev-2'' 200]
   \<and> data (loadData_resolve (GetDataAll 200)
             (Rows [reading ''dev-1'' ''2025-01-01T10:00:00Z'', reading ''dev-3'' ''2025-01-01T10:00:05Z''])
             (loadData_resolve (GetDataDevice ''dev-2'' 200)
                (Rows [reading ''dev-2'' ''2025-01-01T10:00:07Z''])
                (fst (loadData_start utc_minute_toISO
                   (setDeviceFilter ''dev-2'' (fst (loadData_start utc_minute_toISO mount_state)))))))
       = [reading ''dev-3'' ''2025-01-01T10:00:05Z'', reading ''dev-1'' ''2025-01-01T10:00:00Z'']
   \<and> deviceFilter (loadData_resolve (GetDataAll 200)
             (Rows [reading ''dev-1'' ''2025-01-01T10:00:00Z'', reading ''dev-3'' ''2025-01-01T10:00:05Z''])
             (loadData_resolve (GetDataDevice ''dev-2'' 200)
                (Rows [reading ''dev-2'' ''2025-01-01T10:00:07Z''])
                (fst (loadData_start utc_minute_toISO
                   (setDeviceFilter ''dev-2'' (fst (loadData_start utc_minute_toISO mount_state)))))))
       = ''dev-2''"
  by (simp add: loadData_start_def mount_state_def setDeviceFilter_def setData_def
      trim_dev_2 trim_Nil)

text \<open>
  C4, as amended. A \<^verbatim>\<open>device_data\<close> event whose payload lacks a string
  \<^verbatim>\<open>device_id\<close> or a string \<^verbatim>\<open>timestamp\<close> leaves the window and every other
  cell as they are, but for the connectivity cell, which it sets to connected as
  every such event does.
\<close>

theorem malformed_event_only_sets_connected:
  assumes "\<not> is_string (field doc ''device_id'') \<or> \<not> is_string (field doc ''timestamp'')"
  shows "on_device_data doc st = st\<lparr>socketConnected := True\<rparr>"
  using device_data_row_None [OF assms] by (simp add: on_device_data_def)

text \<open>The amended C4 at a payload with a numeric \<^verbatim>\<open>device_id\<close>, after a
  disconnection.\<close>

theorem malformed_event_only_sets_connected_witness:
  "\<not> is_string (field malformed_payload ''device_id'')
   \<and> on_device_data malformed_payload (on_disconnect (on_connect mount_state)) =
       (on_disconnect (on_connect mount_state))\<lparr>socketConnected := True\<rparr>"
  using malformed_event_only_sets_connected
          [of malformed_payload "on_disconnect (on_connect mount_state)"]
  by (simp add: malformed_payload_def)

text \<open>C4 as stated fails: the malformed event changes the connectivity cell.\<close>

theorem malformed_event_changes_connectivity:
  "socketConnected (on_disconnect (on_connect mount_state)) = False
   \<and> socketConnected (on_device_data malformed_payload (on_disconnect (on_connect mount_state))) = True"
  by (simp add: on_device_data_def on_disconnect_def on_connect_def mount_state_def
      malformed_payload_def device_data_row_def)

text \<open>
  C5. Once a batch \<open>S\<close> has replaced the window, the chart's rows are those of \<open>S\<close>
  reversed, one chart row for each row of \<open>S\<close>.
\<close>

theorem chartData_after_setData:
  "chartData fmtTime fmtDate (setData S st) = map (chart_point fmtTime fmtDate) (rev S)"
  by (simp add: chartData_def setData_def)

text \<open>
  C6. A payload with a string \<^verbatim>\<open>device_id\<close> and a string \<^verbatim>\<open>timestamp\<close>,
  whatever the timestamp, yields a row that becomes the first of the window; the
  rows that were there follow it, and the window is cut to 200 rows: none is dropped
  from a window of fewer than 200, the last one from a window of 200.
\<close>

theorem live_sample_is_first:
  assumes "is_string (field doc ''device_id'')" and "is_string (field doc ''timestamp'')"
  shows "\<exists>row. device_data_row doc = Some row
           \<and> field doc ''timestamp'' = Some (JStr (timestamp row))
           \<and> data (on_device_data doc st) = take 200 (row # data st)
           \<and> hd (data (on_device_data doc st)) = row
           \<and> length (data (on_device_data doc st)) \<le> 200
           \<and> (if length (data st) < 200 then data (on_device_data doc st) = row # data st
               else data (on_device_data doc st) = row # take 199 (data st))
           \<and> (if length (data st) = 200 then data (on_device_data doc st) = row # butlast (data st)
               else True)"
proof -
  obtain row where row: "device_data_row doc = Some row"
    and ts: "field doc ''timestamp'' = Some (JStr (timestamp row))"
    using device_data_row_Some [OF assms] by blast
  have "butlast (data st) = take 199 (data st)" if "length (data st) = 200"
    using that by (simp add: butlast_conv_take)
  then show ?thesis
    using row ts by (intro exI [of _ row]) (simp add: on_device_data_def)
qed

text \<open>C6 at a payload older than the row in the window.\<close>

theorem live_sample_is_first_witness:
  "is_string (field sample_payload ''device_id'')
   \<and> is_string (field sample_payload ''timestamp'')
   \<and> (\<exists>row. device_data_row sample_payload = Some row
         \<and> timestamp row = ''1999-12-31T23:59:59Z''
         \<and> data (on_device_data sample_payload (setData [reading ''dev-2'' ''2025-01-01T10:00:07Z''] mount_state))
             = [row, reading ''dev-2'' ''2025-01-01T10:00:07Z''])"
proof -
  have a: "is_string (field sample_payload ''device_id'')"
    and b: "is_string (field sample_payload ''timestamp'')"
    by (simp_all add: sample_payload_def)
  from live_sample_is_first [OF a b, of "setData [reading ''dev-2'' ''2025-01-01T10:00:07Z''] mount_state"]
  obtain row where "device_data_row sample_payload = Some row"
    and "field sample_payload ''timestamp'' = Some (JStr (timestamp row))"
    and "data (on_device_data sample_payload (setData [reading ''dev-2'' ''2025-01-01T10:00:07Z''] mount_state))
           = take 200 (row # data (setData [reading ''dev-2'' ''2025-01-01T10:00:07Z''] mount_state))"
    by blast
  then have "device_data_row sample_payload = Some row
         \<and> timestamp row = ''1999-12-31T23:59:59Z''
         \<and> data (on_device_data sample_payload (setData [reading ''dev-2'' ''2025-01-01T10:00:07Z''] mount_state))
             = [row, reading ''dev-2'' ''2025-01-01T10:00:07Z'']"
    by (simp add: sample_payload_def setData_def)
  then show ?thesis using a b by blast
qed

text \<open>
  C7. When successive input changes are less than the settle interval apart, starting
  with no timer pending, no query is sent while they arrive, and the timer left
  pending has captured the last value; the only query sent is the one of that timer,
  for the last value trimmed, and none is sent when that value is blank: at most one
  query. A blank input clears the suggestions and the pending timer at once, so that
  no query follows from it at any later instant.
\<close>

theorem debounced_typing_fires_once:
  "(gaps_below_settle ks \<and> ks \<noteq> [] \<and> searchTimeoutRef st = None \<longrightarrow>
      snd (typing ks st) = []
      \<and> searchTimeoutRef (fst (typing ks st)) =
          (if trim (snd (last ks)) = [] then None
           else Some (fst (last ks) + SEARCH_DEBOUNCE_MS, snd (last ks)))
      \<and> snd (typing_then_settle ks st) =
          (if trim (snd (last ks)) = [] then [] else [SearchCity (trim (snd (last ks))) 10])
      \<and> length (snd (typing_then_settle ks st)) \<le> 1)
   \<and> (trim v = [] \<longrightarrow>
        citySuggestions (onInputChange now v st') = []
        \<and> \<not> suggestionsOpen (onInputChange now v st')
        \<and> searchTimeoutRef (onInputChange now v st') = None
        \<and> run_timer later (onInputChange now v st') = (onInputChange now v st', []))"
proof (intro conjI impI)
  assume a: "gaps_below_settle ks \<and> ks \<noteq> [] \<and> searchTimeoutRef st = None"
  then have t: "snd (typing ks st) = [] \<and>
     searchTimeoutRef (fst (typing ks st)) =
       (if trim (snd (last ks)) = [] then None
        else Some (fst (last ks) + SEARCH_DEBOUNCE_MS, snd (last ks)))"
    by (intro typing_within_settle) auto
  then show "snd (typing ks st) = []"
    and "searchTimeoutRef (fst (typing ks st)) =
       (if trim (snd (last ks)) = [] then None
        else Some (fst (last ks) + SEARCH_DEBOUNCE_MS, snd (last ks)))"
    by simp_all
  obtain s1 r1 where ty: "typing ks st = (s1, r1)" by (cases "typing ks st")
  with t have r1: "r1 = []" and ref: "searchTimeoutRef s1 =
       (if trim (snd (last ks)) = [] then None
        else Some (fst (last ks) + SEARCH_DEBOUNCE_MS, snd (last ks)))" by simp_all
  show sent: "snd (typing_then_settle ks st) =
        (if trim (snd (last ks)) = [] then [] else [SearchCity (trim (snd (last ks))) 10])"
    by (simp add: typing_then_settle_def ty r1 settle_def ref run_timer_def
        fetchSuggestions_start_def split: prod.splits)
  show "length (snd (typing_then_settle ks st)) \<le> 1"
    by (simp add: sent)
next
  assume "trim v = []"
  then show "run_timer later (onInputChange now v st') = (onInputChange now v st', [])"
    by (intro run_timer_not_due) (simp add: searchTimeoutRef_onInputChange)
qed (simp_all add: onInputChange_def Let_def)

text \<open>C7 at the inputs P, Pa, Par typed 100 ms apart, and at a blank input.\<close>

theorem debounced_typing_fires_once_witness:
  "gaps_below_settle [(0, ''P''), (100, ''Pa''), (200, ''Par'')]
   \<and> searchTimeoutRef weather_mount_state = None
   \<and> snd (typing_then_settle [(0, ''P''), (100, ''Pa''), (200, ''Par'')] weather_mount_state)
       = [SearchCity ''Par'' 10]
   \<and> trim ''  '' = []
   \<and> citySuggestions (onInputChange 0 ''  '' weather_mount_state) = []
   \<and> searchTimeoutRef (onInputChange 0 ''  '' weather_mount_state) = None"
  using debounced_typing_fires_once
          [of "[(0, ''P''), (100, ''Pa''), (200, ''Par'')]" weather_mount_state "''  ''" 0
              weather_mount_state 0]
  by (simp add: SEARCH_DEBOUNCE_MS_def weather_mount_state_def trim_Par trim_blank)




text \<open>
  C9. When the selected city is replaced by another object, a city of the declared
  type, the render that follows does not throw and its effects send one request for
  each panel keyed by the city (current weather, forecast, analysis), for the new
  city. Result, error and loading flag of the two panels keyed by a device are then
  what they were, and still are once these three requests have ended, however they
  end with bodies of the declared types; the page still renders then.
\<close>

theorem city_change_keeps_device_panels:
  assumes "map_option address (selectedCity st) \<noteq> Some (address c)"
    and "city_well_typed (contents c)"
  shows "\<exists>s. city_selected c st =
               Some (s, [GetCurrentWeather (contents c), GetForecast (contents c) 7,
                         GetAnalysis (contents c) 100])
    \<and> selectedCity s = Some c
    \<and> device_panels s = device_panels st
    \<and> \<not> render_throws s
    \<and> \<not> render_throws
          (analysis_resolve ca ao
            (forecast_resolve cf fo (fst (weather_resolve c1 c2 (contents c) wb wo s))))
    \<and> device_panels
          (analysis_resolve ca ao
            (forecast_resolve cf fo (fst (weather_resolve c1 c2 (contents c) wb wo s))))
        = device_panels st"
proof -
  let ?s = "selectCity c st\<lparr>loadingWeather := True, error := None, forecastLoading := True,
        forecastError := None, analysisLoading := True, analysisError := None\<rparr>"
  have changed: "\<not> same_reference (selectedCity st) (selectedCity (selectCity c st))"
    using assms(1) by (simp add: same_reference_def selectCity_def)
  have sel: "selectedCity (selectCity c st) = Some c"
    by (simp add: selectCity_def)
  have label: "city_label_ok (contents c)"
    using assms(2) by (rule city_label_ok_well_typed)
  have named: "is_string (name (contents c))"
    using assms(2) by (simp add: city_well_typed_def)
  have renders: "\<not> render_throws (selectCity c st)"
    using label named by (simp add: render_throws_def selectCity_def)
  have still: "\<not> render_throws ?s"
    using label named by (simp add: render_throws_def selectCity_def)
  have run: "city_selected c st =
    Some (?s, [GetCurrentWeather (contents c), GetForecast (contents c) 7,
               GetAnalysis (contents c) 100])"
    using changed renders
    by (simp add: city_selected_def run_effects_def weather_effect_def forecast_effect_def
        analysis_effect_def sel)
  have panels: "device_panels ?s = device_panels st"
    by (simp add: device_panels_def selectCity_def)
  have chosen: "selectedCity ?s = Some c"
    by (simp add: selectCity_def)
  show ?thesis
    using run chosen panels still
    by (intro exI [of _ ?s])
      (simp add: device_panels_analysis_resolve device_panels_forecast_resolve
        device_panels_weather_resolve render_throws_analysis_resolve
        render_throws_forecast_resolve render_throws_weather_resolve)
qed

text \<open>C9 at the change from Paris to Lyon, with a result in one device panel and an
  error in the other.\<close>

theorem city_change_keeps_device_panels_witness:
  "map_option address (selectedCity panels_filled_state) \<noteq> Some (address lyon)
   \<and> city_well_typed (contents lyon)
   \<and> (\<exists>s. city_selected lyon panels_filled_state =
             Some (s, [GetCurrentWeather (contents lyon), GetForecast (contents lyon) 7,
                       GetAnalysis (contents lyon) 100])
        \<and> selectedCity s = Some lyon
        \<and> device_panels s =
            ((Some weather_aware_result, None, False),
             (None, Some prediction24h_unavailable, False))
        \<and> analysisData (analysis_resolve False (Some (Some lyon_analysis))
              (forecast_resolve False None
                (fst (weather_resolve False False (contents lyon) None None s)))) =
            Some lyon_analysis
        \<and> device_panels (analysis_resolve False (Some (Some lyon_analysis))
              (forecast_resolve False None
                (fst (weather_resolve False False (contents lyon) None None s)))) =
            ((Some weather_aware_result, None, False),
             (None, Some prediction24h_unavailable, False)))"
proof -
  have a: "map_option address (selectedCity panels_filled_state) \<noteq> Some (address lyon)"
    by (simp add: panels_filled_state_def weather_mount_state_def lyon_def)
  have b: "city_well_typed (contents lyon)"
    by (simp add: city_well_typed_def lyon_def)
  have p: "device_panels panels_filled_state =
       ((Some weather_aware_result, None, False), (None, Some prediction24h_unavailable, False))"
    by (simp add: device_panels_def panels_filled_state_def weather_mount_state_def)
  from city_change_keeps_device_panels
         [OF a b, of False "Some (Some lyon_analysis)" False None False False None None]
  obtain s where "city_selected lyon panels_filled_state =
             Some (s, [GetCurrentWeather (contents lyon), GetForecast (contents lyon) 7,
                       GetAnalysis (contents lyon) 100])"
    and "selectedCity s = Some lyon"
    and "device_panels s = device_panels panels_filled_state"
    and "device_panels (analysis_resolve False (Some (Some lyon_analysis))
              (forecast_resolve False None
                (fst (weather_resolve False False (contents lyon) None None s)))) =
          device_panels panels_filled_state"
    by blast
  then show ?thesis
    using a b p by auto
qed

text \<open>
  C10. Each of the three prediction fetches returns at once, sending no request and
  leaving the whole state as it is, when its device id is empty or blank, and the two
  of the weather page also when no city is selected.
\<close>

theorem prediction_fetch_guards:
  "(trim (predictDeviceId ms) = [] \<longrightarrow> fetchPrediction ms = (ms, []))
   \<and> (selectedCity ws = None \<or> trim (weatherAwareDeviceId ws) = [] \<longrightarrow>
        fetchWeatherAwarePrediction ws = (ws, []))
   \<and> (selectedCity ws = None \<or> trim (prediction24hDeviceId ws) = [] \<longrightarrow>
        fetchPrediction24h ws = (ws, []))"
  by (auto simp: fetchPrediction_def fetchWeatherAwarePrediction_def fetchPrediction24h_def
      split: option.splits)

text \<open>C10 at a blank device id on the monitoring page, and on the weather page at
  no city with a device chosen and at a city with a blank device id.\<close>

theorem prediction_fetch_guards_witness:
  "trim (predictDeviceId (mount_state\<lparr>predictDeviceId := ''  ''\<rparr>)) = []
   \<and> fetchPrediction (mount_state\<lparr>predictDeviceId := ''  ''\<rparr>) =
       (mount_state\<lparr>predictDeviceId := ''  ''\<rparr>, [])
   \<and> selectedCity (weather_mount_state\<lparr>selectedCity := None, weatherAwareDeviceId := ''dev-1'',
                      prediction24hDeviceId := ''dev-1''\<rparr>) = None
   \<and> fetchWeatherAwarePrediction
       (weather_mount_state\<lparr>selectedCity := None, weatherAwareDeviceId := ''dev-1'',
          prediction24hDeviceId := ''dev-1''\<rparr>) =
       (weather_mount_state\<lparr>selectedCity := None, weatherAwareDeviceId := ''dev-1'',
          prediction24hDeviceId := ''dev-1''\<rparr>, [])
   \<and> fetchPrediction24h
       (weather_mount_state\<lparr>selectedCity := None, weatherAwareDeviceId := ''dev-1'',
          prediction24hDeviceId := ''dev-1''\<rparr>) =
       (weather_mount_state\<lparr>selectedCity := None, weatherAwareDeviceId := ''dev-1'',
          prediction24hDeviceId := ''dev-1''\<rparr>, [])
   \<and> trim (prediction24hDeviceId (weather_mount_state\<lparr>prediction24hDeviceId := ''  ''\<rparr>)) = []
   \<and> fetchPrediction24h (weather_mount_state\<lparr>prediction24hDeviceId := ''  ''\<rparr>) =
       (weather_mount_state\<lparr>prediction24hDeviceId := ''  ''\<rparr>, [])"
  using prediction_fetch_guards
          [of "mount_state\<lparr>predictDeviceId := ''  ''\<rparr>"
              "weather_mount_state\<lparr>selectedCity := None, weatherAwareDeviceId := ''dev-1'',
                 prediction24hDeviceId := ''dev-1''\<rparr>"]
        prediction_fetch_guards
          [of mount_state "weather_mount_state\<lparr>prediction24hDeviceId := ''  ''\<rparr>"]
  by (simp add: trim_blank)

end
